theory Spec2Isabelle
  imports Main "HOL-Library.AList" "HOL-Library.Word"
begin

section \<open>JavaScript values and the object store\<close>

text \<open>
  \<^verbatim>\<open>localParDo.ts\<close> relies on object identity, prototype chains and the difference between
  own and inherited properties (\<^verbatim>\<open>Object.create\<close>, \<^verbatim>\<open>instanceof\<close>, \<^verbatim>\<open>delete\<close>), so objects
  live in an explicit store. An address is an index into the store and allocation appends.
  Prototype chains of JavaScript are acyclic and every allocation of this file receives an
  already existing prototype, so addresses are numbered such that a prototype is older
  (smaller) than the objects inheriting from it.

  Objects carry plain, writable, enumerable data properties with string keys, kept in the
  order \<^verbatim>\<open>Object.entries\<close> enumerates them; accessors and frozen objects are not modelled.
  Numbers are restricted to integers (the code never computes with them) and a \<^typ>\<open>char\<close>
  stands for one code unit of a JavaScript string.
\<close>

type_synonym addr = nat

datatype jsval = Undefined | Null | JBool bool | JNum int | JStr string | Ref addr

record obj =
  proto :: "addr option"
  props :: "(string \<times> jsval) list"
  callable :: bool

type_synonym heap = "obj list"

datatype error = Error string | TypeError

type_synonym bytes = "8 word list"

text \<open>\<^verbatim>\<open>typeof v\<close>; note \<^verbatim>\<open>typeof null === "object"\<close>.\<close>

fun typeof :: "heap \<Rightarrow> jsval \<Rightarrow> string" where
  "typeof h Undefined = ''undefined''"
| "typeof h Null = ''object''"
| "typeof h (JBool b) = ''boolean''"
| "typeof h (JNum n) = ''number''"
| "typeof h (JStr s) = ''string''"
| "typeof h (Ref a) = (if callable (h ! a) then ''function'' else ''object'')"


text \<open>\<^verbatim>\<open>o[name]\<close> on an object: the own property, else the prototype's.\<close>

function getProp :: "heap \<Rightarrow> addr \<Rightarrow> string \<Rightarrow> jsval" where
  "getProp h a name =
     (if a < length h then
        (case map_of (props (h ! a)) name of
           Some v \<Rightarrow> v
         | None \<Rightarrow>
             (case proto (h ! a) of
                None \<Rightarrow> Undefined
              | Some p \<Rightarrow> if p < a then getProp h p name else Undefined))
      else Undefined)"
  by pat_completeness auto
termination
  by (relation "measure (\<lambda>(h, a, name). a)") auto

declare getProp.simps [simp del]

text \<open>
  \<^verbatim>\<open>v.name\<close> on an arbitrary value: a \<^verbatim>\<open>TypeError\<close> on \<^verbatim>\<open>undefined\<close> and \<^verbatim>\<open>null\<close>. The
  names this file reads (\<^verbatim>\<open>pcoll\<close>, \<^verbatim>\<open>accessor\<close>, \<^verbatim>\<open>accessPattern\<close>, \<^verbatim>\<open>provider\<close>) are not
  members of the primitive wrappers, so a primitive yields \<^verbatim>\<open>undefined\<close>.
\<close>

fun getMember :: "heap \<Rightarrow> jsval \<Rightarrow> string \<Rightarrow> error + jsval" where
  "getMember h Undefined name = Inl TypeError"
| "getMember h Null name = Inl TypeError"
| "getMember h (Ref a) name = Inr (getProp h a name)"
| "getMember h v name = Inr Undefined"

text \<open>\<^verbatim>\<open>o[name] = v\<close>: with data properties only, an own property of the receiver.\<close>

definition setProp :: "heap \<Rightarrow> addr \<Rightarrow> string \<Rightarrow> jsval \<Rightarrow> heap" where
  "setProp h a name v = h[a := (h ! a)\<lparr>props := AList.update name v (props (h ! a))\<rparr>]"

text \<open>\<^verbatim>\<open>delete o[name]\<close> removes an own property and never touches the prototype.\<close>

definition deleteProp :: "heap \<Rightarrow> addr \<Rightarrow> string \<Rightarrow> heap" where
  "deleteProp h a name = h[a := (h ! a)\<lparr>props := AList.delete name (props (h ! a))\<rparr>]"

definition hasOwnProperty :: "heap \<Rightarrow> addr \<Rightarrow> string \<Rightarrow> bool" where
  "hasOwnProperty h a name = (a < length h \<and> map_of (props (h ! a)) name \<noteq> None)"

text \<open>\<^verbatim>\<open>Object.create(p)\<close> with \<^verbatim>\<open>p\<close> an object (\<open>Some\<close>) or \<^verbatim>\<open>null\<close> (\<open>None\<close>).\<close>

definition Object_create :: "heap \<Rightarrow> addr option \<Rightarrow> addr \<times> heap" where
  "Object_create h p = (length h, h @ [\<lparr>proto = p, props = [], callable = False\<rparr>])"

text \<open>
  \<^verbatim>\<open>v instanceof C\<close> with \<open>P\<close> the address of \<^verbatim>\<open>C.prototype\<close>: the walk starts at the
  prototype of \<open>v\<close>, and a primitive is an instance of nothing.
\<close>

function inProtoChain :: "heap \<Rightarrow> addr \<Rightarrow> addr \<Rightarrow> bool" where
  "inProtoChain h a P =
     (if a < length h then
        (case proto (h ! a) of
           None \<Rightarrow> False
         | Some p \<Rightarrow> if p = P then True else if p < a then inProtoChain h p P else False)
      else False)"
  by pat_completeness auto
termination
  by (relation "measure (\<lambda>(h, a, P). a)") auto

declare inProtoChain.simps [simp del]

fun instanceof :: "heap \<Rightarrow> jsval \<Rightarrow> addr \<Rightarrow> bool" where
  "instanceof h (Ref a) P = inProtoChain h a P"
| "instanceof h v P = False"

section \<open>Wire records and the graph registry\<close>

text \<open>
  The messages of \<^verbatim>\<open>beam_runner_api\<close> are plain data. The object literal of a side input
  (lines 120-137) stores \<^verbatim>\<open>value.accessor.accessPattern\<close> as it is read, hence a urn of
  type \<^typ>\<open>jsval\<close> there, and names the second field of its \<^verbatim>\<open>windowMappingFn\<close>
  \<^verbatim>\<open>value\<close>.
\<close>

record 'u FunctionSpec =
  urn :: 'u
  payload :: bytes

record WindowMappingFn =
  wm_urn :: string
  wm_value :: bytes

record SideInput =
  accessPattern :: "jsval FunctionSpec"
  viewFn :: "string FunctionSpec"
  windowMappingFn :: WindowMappingFn

record ParDoPayload =
  doFn :: "string FunctionSpec"
  sideInputs :: "string \<rightharpoonup> SideInput"

record PTransform =
  inputs :: "string \<rightharpoonup> string"
  outputs :: "string \<rightharpoonup> string"
  spec :: "string FunctionSpec option"

record PCollectionProto =
  windowingStrategyId :: string

record WindowingStrategy =
  windowFn :: "string FunctionSpec option"

text \<open>
  \<^verbatim>\<open>components.pcollections[id]\<close> and \<^verbatim>\<open>components.windowingStrategies[id]\<close> are finite
  maps; an absent key reads as \<^verbatim>\<open>undefined\<close>.
\<close>

record Components =
  pcollections :: "string \<rightharpoonup> PCollectionProto"
  windowingStrategies :: "string \<rightharpoonup> WindowingStrategy"

record PipelineContext =
  components :: Components

record Pipeline =
  pipeline_context :: PipelineContext

datatype coder = GeneralObjectCoder

text \<open>
  What the file imports and does not define: the urn constants of \<^verbatim>\<open>internal/urns\<close>, the
  serialisers, \<^verbatim>\<open>PCollection.getId\<close> (a table from the address of a handle to its id; an
  object that is no handle has no such method), the allocator of the pipeline,
  \<^verbatim>\<open>extractName\<close>, and the addresses of \<^verbatim>\<open>Object.prototype\<close> and \<^verbatim>\<open>SideInputParam.prototype\<close>.
\<close>

record externals =
  GLOBAL_WINDOW_MAPPING_FN_URN :: string
  IDENTITY_WINDOW_MAPPING_FN_URN :: string
  ASSIGN_MAX_TIMESTAMP_WINDOW_MAPPING_FN_URN :: string
  LOCAL_DOFN_EXPORT_NAME :: string
  TextEncoder_encode :: "string \<Rightarrow> bytes"
  ParDoPayload_toBinary :: "ParDoPayload \<Rightarrow> bytes"
  getId :: "addr \<rightharpoonup> string"
  createPCollectionInternal :: "coder \<Rightarrow> Pipeline \<Rightarrow> heap \<Rightarrow> jsval \<times> Pipeline \<times> heap"
  extractName :: "string \<Rightarrow> string"
  Object_prototype :: addr
  SideInputParam_prototype :: addr

text \<open>\<^verbatim>\<open>v.getId()\<close>: a \<^verbatim>\<open>TypeError\<close> unless \<open>v\<close> is a handle.\<close>

fun call_getId :: "externals \<Rightarrow> jsval \<Rightarrow> error + string" where
  "call_getId ext (Ref a) = (case getId ext a of None \<Rightarrow> Inl TypeError | Some i \<Rightarrow> Inr i)"
| "call_getId ext v = Inl TypeError"

record state =
  heap :: heap
  transformProto :: PTransform
  pipeline :: Pipeline

section \<open>Side-input parameters\<close>

text \<open>
  \<^verbatim>\<open>new SideInputParam(pcoll, accessor)\<close> (lines 263-270): the constructors assign
  \<^verbatim>\<open>parDoParamName\<close>, \<^verbatim>\<open>pcoll\<close> and \<^verbatim>\<open>accessor\<close>; \<^verbatim>\<open>provider\<close> and \<^verbatim>\<open>sideInputId\<close> are declared
  and not assigned.
\<close>

definition new_SideInputParam :: "externals \<Rightarrow> heap \<Rightarrow> jsval \<Rightarrow> jsval \<Rightarrow> addr \<times> heap" where
  "new_SideInputParam ext h pcoll accessor =
     (length h,
      h @ [\<lparr>proto = Some (SideInputParam_prototype ext),
            props = [(''parDoParamName'', JStr ''sideInput''), (''pcoll'', pcoll),
                     (''accessor'', accessor)],
            callable = False\<rparr>])"

text \<open>Lines 277-285.\<close>

definition copySideInputWithId :: "heap \<Rightarrow> addr \<Rightarrow> string \<Rightarrow> addr \<times> heap" where
  "copySideInputWithId h sideInput ident =
     (let (copy, h1) = Object_create h (Some sideInput);
          h2 = setProp h1 copy ''sideInputId'' (JStr ident);
          h3 = deleteProp h2 copy ''pcoll''
      in (copy, h3))"

section \<open>Expansion\<close>

text \<open>
  The body of the loop over \<^verbatim>\<open>Object.entries(context)\<close> for an entry that is a
  \<^verbatim>\<open>SideInputParam\<close> (lines 107-137). Each statement that can throw ends the run with the
  state reached so far.
\<close>

definition expandSideInput ::
  "externals \<Rightarrow> jsval \<Rightarrow> addr \<Rightarrow> Components \<Rightarrow> string \<Rightarrow> addr \<Rightarrow>
   (string \<rightharpoonup> SideInput) \<Rightarrow> state \<Rightarrow> (error + (string \<rightharpoonup> SideInput)) \<times> state" where
  "expandSideInput ext input contextCopy comps name v sideInps s =
     (let inputName = ''side.'' @ name in
      (case call_getId ext (getProp (heap s) v ''pcoll'') of \<comment> \<open>line 108\<close>
        Inl e \<Rightarrow> (Inl e, s)
      | Inr sideId \<Rightarrow>
          let s1 = s\<lparr>transformProto :=
                      (transformProto s)\<lparr>inputs := (inputs (transformProto s))(inputName \<mapsto> sideId)\<rparr>\<rparr>;
              (copy, h2) = copySideInputWithId (heap s1) v inputName; \<comment> \<open>line 109\<close>
              s2 = s1\<lparr>heap := setProp h2 contextCopy name (Ref copy)\<rparr>
          in
          (case call_getId ext input of \<comment> \<open>lines 110-111\<close>
             Inl e \<Rightarrow> (Inl e, s2)
           | Inr mainId \<Rightarrow>
          (case pcollections comps mainId of
             None \<Rightarrow> (Inl TypeError, s2)
           | Some mainPc \<Rightarrow>
          let mainWindowingStrategyId = windowingStrategyId mainPc in
          (case inputs (transformProto s2) inputName of \<comment> \<open>lines 112-114\<close>
             None \<Rightarrow> (Inl TypeError, s2)
           | Some sidePcollId \<Rightarrow>
          (case pcollections comps sidePcollId of
             None \<Rightarrow> (Inl TypeError, s2)
           | Some sidePc \<Rightarrow>
          let sideWindowingStrategyId = windowingStrategyId sidePc in
          (case windowingStrategies comps sideWindowingStrategyId of \<comment> \<open>lines 115-119\<close>
             None \<Rightarrow> (Inl TypeError, s2)
           | Some sideWindowingStrategy \<Rightarrow>
          (case windowFn sideWindowingStrategy of
             None \<Rightarrow> (Inl TypeError, s2)
           | Some wfn \<Rightarrow>
          let isGlobalSide = (urn wfn = ''beam:window_fn:global_windows:v1'') in
          (case getMember (heap s2) (getProp (heap s2) v ''accessor'') ''accessPattern'' of
             \<comment> \<open>lines 120-137\<close>
             Inl e \<Rightarrow> (Inl e, s2)
           | Inr pat \<Rightarrow>
          (Inr (sideInps(inputName \<mapsto>
                 \<lparr>accessPattern = \<lparr>urn = pat, payload = []\<rparr>,
                  viewFn = \<lparr>urn = ''unused'', payload = []\<rparr>,
                  windowMappingFn =
                    \<lparr>wm_urn =
                       (if isGlobalSide then GLOBAL_WINDOW_MAPPING_FN_URN ext
                        else if mainWindowingStrategyId = sideWindowingStrategyId
                        then IDENTITY_WINDOW_MAPPING_FN_URN ext
                        else ASSIGN_MAX_TIMESTAMP_WINDOW_MAPPING_FN_URN ext),
                     wm_value = []\<rparr>\<rparr>)),
           s2))))))))))"

text \<open>One iteration of the loop (lines 105-141).\<close>

fun expandEntry ::
  "externals \<Rightarrow> jsval \<Rightarrow> addr \<Rightarrow> Components \<Rightarrow> string \<Rightarrow> jsval \<Rightarrow>
   (string \<rightharpoonup> SideInput) \<Rightarrow> state \<Rightarrow> (error + (string \<rightharpoonup> SideInput)) \<times> state" where
  "expandEntry ext input contextCopy comps name (Ref v) sideInps s =
     (if instanceof (heap s) (Ref v) (SideInputParam_prototype ext)
      then expandSideInput ext input contextCopy comps name v sideInps s
      else (Inr sideInps, s\<lparr>heap := setProp (heap s) contextCopy name (Ref v)\<rparr>))"
| "expandEntry ext input contextCopy comps name value sideInps s =
     (Inr sideInps, s\<lparr>heap := setProp (heap s) contextCopy name value\<rparr>)"

text \<open>The loop over the entries, which are read once before the first iteration.\<close>

fun expandEntries ::
  "externals \<Rightarrow> jsval \<Rightarrow> addr \<Rightarrow> Components \<Rightarrow> (string \<times> jsval) list \<Rightarrow>
   (string \<rightharpoonup> SideInput) \<Rightarrow> state \<Rightarrow> (error + (string \<rightharpoonup> SideInput)) \<times> state" where
  "expandEntries ext input contextCopy comps [] sideInps s = (Inr sideInps, s)"
| "expandEntries ext input contextCopy comps ((name, value) # rest) sideInps s =
     (case expandEntry ext input contextCopy comps name value sideInps s of
        (Inl e, s') \<Rightarrow> (Inl e, s')
      | (Inr sideInps', s') \<Rightarrow> expandEntries ext input contextCopy comps rest sideInps' s')"

text \<open>
  Lines 99-144 of \<^verbatim>\<open>expandInternal\<close>: the side-input mapping and \<^verbatim>\<open>contextCopy\<close>,
  which the rest of the function does not use. A value whose \<^verbatim>\<open>typeof\<close> is \<^verbatim>\<open>"object"\<close> is a
  reference or \<^verbatim>\<open>null\<close>; \<^verbatim>\<open>Object.entries(null)\<close> throws a \<^verbatim>\<open>TypeError\<close>, after
  \<^verbatim>\<open>Object.create(null)\<close> has succeeded.
\<close>

definition resolveContext ::
  "externals \<Rightarrow> jsval \<Rightarrow> jsval \<Rightarrow> state \<Rightarrow>
   (error + (string \<rightharpoonup> SideInput) \<times> jsval) \<times> state" where
  "resolveContext ext ctx input s =
     (if typeof (heap s) ctx = ''object'' then
        (case ctx of
           Ref c \<Rightarrow>
             let (contextCopy, h1) = Object_create (heap s) (Some c);
                 s1 = s\<lparr>heap := h1\<rparr>;
                 comps = components (pipeline_context (pipeline s1))
             in (case expandEntries ext input contextCopy comps (props (heap s1 ! c)) Map.empty s1 of
                   (Inl e, s') \<Rightarrow> (Inl e, s')
                 | (Inr sideInps, s') \<Rightarrow> (Inr (sideInps, Ref contextCopy), s'))
         | _ \<Rightarrow>
             let (contextCopy, h1) = Object_create (heap s) None
             in (Inl TypeError, s\<lparr>heap := h1\<rparr>))
      else (Inr (Map.empty, ctx), s))"

definition localParDo_urn :: string where
  "localParDo_urn = ''beam:transform:pardo:v1''"

record LocalDoFn =
  beamName :: "string option"
  exportName :: string
  beamPardoContextSpec :: jsval

text \<open>\<^verbatim>\<open>expandInternal\<close> (lines 94-166), with the variable \<^verbatim>\<open>context\<close> of its closure.\<close>

definition expandInternal ::
  "externals \<Rightarrow> LocalDoFn \<Rightarrow> jsval \<Rightarrow> jsval \<Rightarrow> state \<Rightarrow> (error + jsval) \<times> state" where
  "expandInternal ext fn ctx input s =
     (case resolveContext ext ctx input s of
        (Inl e, s') \<Rightarrow> (Inl e, s')
      | (Inr (sideInps, contextCopy), s') \<Rightarrow>
          let s1 = s'\<lparr>transformProto := (transformProto s')\<lparr>spec := Some
                     \<lparr>urn = localParDo_urn,
                      payload = ParDoPayload_toBinary ext
                        \<lparr>doFn = \<lparr>urn = LOCAL_DOFN_EXPORT_NAME ext,
                                 payload = TextEncoder_encode ext (exportName fn)\<rparr>,
                         sideInputs = sideInps\<rparr>\<rparr>\<rparr>\<rparr>;
              (out, p', h') = createPCollectionInternal ext GeneralObjectCoder (pipeline s1) (heap s1)
          in (Inr out, s1\<lparr>pipeline := p', heap := h'\<rparr>))"

section \<open>Building the transform\<close>









section \<open>Parameters and their provider\<close>

text \<open>
  The interface \<^verbatim>\<open>ParamProvider\<close> (lines 231-234) is implemented by the runtime. An
  implementation acts on a state \<open>'w\<close> of its own and may throw; \<open>impl\<close> tells which objects
  of the store implement it.
\<close>

record 'w ParamProvider =
  provider_lookup :: "addr \<Rightarrow> 'w \<Rightarrow> (error + jsval) \<times> 'w"
  provider_update :: "addr \<Rightarrow> jsval \<Rightarrow> 'w \<Rightarrow> (error + unit) \<times> 'w"

text \<open>
  \<^verbatim>\<open>ParDoLookupParam.lookup\<close> (lines 202-208). Only \<^verbatim>\<open>undefined\<close> counts as unbound; a call
  on anything that is no provider is a \<^verbatim>\<open>TypeError\<close>.
\<close>

definition ParDoLookupParam_lookup ::
  "(addr \<rightharpoonup> 'w ParamProvider) \<Rightarrow> heap \<Rightarrow> addr \<Rightarrow> 'w \<Rightarrow> (error + jsval) \<times> 'w" where
  "ParDoLookupParam_lookup impl h this w =
     (case getProp h this ''provider'' of
        Undefined \<Rightarrow> (Inl (Error ''Cannot be called outside of a DoFn's process method.''), w)
      | Ref p \<Rightarrow> (case impl p of
                    None \<Rightarrow> (Inl TypeError, w)
                  | Some prov \<Rightarrow> provider_lookup prov this w)
      | _ \<Rightarrow> (Inl TypeError, w))"

text \<open>\<^verbatim>\<open>ParDoUpdateParam.update\<close> (lines 216-222).\<close>

definition ParDoUpdateParam_update ::
  "(addr \<rightharpoonup> 'w ParamProvider) \<Rightarrow> heap \<Rightarrow> addr \<Rightarrow> jsval \<Rightarrow> 'w \<Rightarrow> (error + unit) \<times> 'w" where
  "ParDoUpdateParam_update impl h this v w =
     (case getProp h this ''provider'' of
        Undefined \<Rightarrow> (Inl (Error ''Cannot be called outside of a DoFn's process method.''), w)
      | Ref p \<Rightarrow> (case impl p of
                    None \<Rightarrow> (Inl TypeError, w)
                  | Some prov \<Rightarrow> provider_update prov this v w)
      | _ \<Rightarrow> (Inl TypeError, w))"

section \<open>Well-formed stores\<close>




text \<open>Tagging one parameter with each identifier of a list in turn.\<close>

fun tagRepeatedly :: "heap \<Rightarrow> addr \<Rightarrow> string list \<Rightarrow> addr list \<times> heap" where
  "tagRepeatedly h sideInput [] = ([], h)"
| "tagRepeatedly h sideInput (ident # idents) =
     (let (copy, h1) = copySideInputWithId h sideInput ident;
          (copies, h2) = tagRepeatedly h1 sideInput idents
      in (copy # copies, h2))"

section \<open>A concrete pipeline\<close>

text \<open>
  The store of a small program: \<^verbatim>\<open>Object.prototype\<close> at 0, the prototypes of \<^verbatim>\<open>ParDoParam\<close>,
  \<^verbatim>\<open>ParDoLookupParam\<close> and \<^verbatim>\<open>SideInputParam\<close> at 1, 2 and 3, the handles of the main and of
  the side dataset at 4 and 5, an accessor at 6, the parameter
  \<^verbatim>\<open>new SideInputParam(sideHandle, accessor)\<close> at 7 and the context
  \<^verbatim>\<open>{ threshold: param, limit: 10 }\<close> at 8.
\<close>

definition plain :: "addr option \<Rightarrow> (string \<times> jsval) list \<Rightarrow> obj" where
  "plain p ps = \<lparr>proto = p, props = ps, callable = False\<rparr>"

definition ext0 :: externals where
  "ext0 =
     \<lparr>GLOBAL_WINDOW_MAPPING_FN_URN = ''beam:window_mapping_fn:global:v1'',
      IDENTITY_WINDOW_MAPPING_FN_URN = ''beam:window_mapping_fn:identity:v1'',
      ASSIGN_MAX_TIMESTAMP_WINDOW_MAPPING_FN_URN = ''beam:window_mapping_fn:assign_max_timestamp:v1'',
      LOCAL_DOFN_EXPORT_NAME = ''beam:dofn:local_export_name:v1'',
      TextEncoder_encode = map of_char,
      ParDoPayload_toBinary = (\<lambda>p. payload (doFn p)),
      getId = [4 \<mapsto> ''pc_main'', 5 \<mapsto> ''pc_side''],
      createPCollectionInternal = (\<lambda>c p h. (Ref (length h), p, h @ [plain (Some 0) []])),
      extractName = (\<lambda>n. n),
      Object_prototype = 0,
      SideInputParam_prototype = 3\<rparr>"

definition heap7 :: heap where
  "heap7 =
     [plain None [], plain (Some 0) [], plain (Some 1) [], plain (Some 2) [],
      plain (Some 0) [], plain (Some 0) [],
      plain (Some 0) [(''accessPattern'', JStr ''beam:side_input:iterable:v1'')]]"

definition heap0 :: heap where
  "heap0 =
     snd (new_SideInputParam ext0 heap7 (Ref 5) (Ref 6)) @
     [plain (Some 0) [(''threshold'', Ref 7), (''limit'', JNum 10)]]"

definition registry :: "string \<Rightarrow> string list \<Rightarrow> Components" where
  "registry sideStrategy known =
     \<lparr>pcollections =
        map_of (filter (\<lambda>(i, pc). i \<in> set known)
          [(''pc_main'', \<lparr>windowingStrategyId = ''W1''\<rparr>),
           (''pc_side'', \<lparr>windowingStrategyId = sideStrategy\<rparr>)]),
      windowingStrategies =
        [''W1'' \<mapsto> \<lparr>windowFn = Some \<lparr>urn = ''beam:window_fn:global_windows:v1'', payload = []\<rparr>\<rparr>,
         ''W2'' \<mapsto> \<lparr>windowFn = Some \<lparr>urn = ''beam:window_fn:fixed_windows:v1'', payload = []\<rparr>\<rparr>]\<rparr>"

definition state0 :: "string list \<Rightarrow> state" where
  "state0 known =
     \<lparr>heap = heap0,
      transformProto = \<lparr>inputs = [''main'' \<mapsto> ''pc_main''], outputs = Map.empty, spec = None\<rparr>,
      pipeline = \<lparr>pipeline_context = \<lparr>components = registry ''W2'' known\<rparr>\<rparr>\<rparr>"

text \<open>A second context, \<^verbatim>\<open>{ limit: 10, handle: mainHandle }\<close>, at 9.\<close>

definition heap1 :: heap where
  "heap1 = heap0 @ [plain (Some 0) [(''limit'', JNum 10), (''handle'', Ref 4)]]"

text \<open>The store of \<open>heap0\<close> once \<^verbatim>\<open>contextCopy\<close> has been created at 9.\<close>

definition state9 :: state where
  "state9 =
     \<lparr>heap = heap0 @ [plain (Some 8) []],
      transformProto = \<lparr>inputs = [''main'' \<mapsto> ''pc_main''], outputs = Map.empty, spec = None\<rparr>,
      pipeline = \<lparr>pipeline_context = \<lparr>components = registry ''W1'' [''pc_main'', ''pc_side'']\<rparr>\<rparr>\<rparr>"

text \<open>The parameter at 7 once a provider, allocated at 9, is bound to it.\<close>

definition boundHeap :: heap where
  "boundHeap = setProp (heap0 @ [plain (Some 0) []]) 7 ''provider'' (Ref 9)"

definition double :: LocalDoFn where
  "double = \<lparr>beamName = None, exportName = ''double'', beamPardoContextSpec = Undefined\<rparr>"

text \<open>A provider that answers from a table and records the updates it is given.\<close>

definition stub :: "(addr \<Rightarrow> jsval) \<Rightarrow> (addr \<times> jsval) list ParamProvider" where
  "stub table =
     \<lparr>provider_lookup = (\<lambda>param w. (Inr (table param), w)),
      provider_update = (\<lambda>param v w. (Inr (), w @ [(param, v)]))\<rparr>"


section \<open>States of the loop\<close>

text \<open>The store after the assignments \<^verbatim>\<open>contextCopy[name] = value\<close> for a list of entries.\<close>

definition assignAll :: "addr \<Rightarrow> (string \<times> jsval) list \<Rightarrow> heap \<Rightarrow> heap" where
  "assignAll cc es h = fold (\<lambda>(n, x) h'. setProp h' cc n x) es h"

text \<open>The object \<^verbatim>\<open>copySideInputWithId\<close> allocates.\<close>

definition taggedCopy :: "addr \<Rightarrow> string \<Rightarrow> obj" where
  "taggedCopy v tag = \<lparr>proto = Some v, props = [(''sideInputId'', JStr tag)], callable = False\<rparr>"

text \<open>
  The state in which the body of the loop leaves a side-input entry once the id of its
  dataset is known (after line 109).
\<close>

definition registered :: "addr \<Rightarrow> string \<Rightarrow> addr \<Rightarrow> string \<Rightarrow> state \<Rightarrow> state" where
  "registered cc name v sideId s =
     s\<lparr>transformProto :=
         (transformProto s)\<lparr>inputs := (inputs (transformProto s))(''side.'' @ name \<mapsto> sideId)\<rparr>,
       heap := setProp (heap s @ [taggedCopy v (''side.'' @ name)]) cc name (Ref (length (heap s)))\<rparr>"


section \<open>The store under allocation and assignment\<close>

lemmas example_defs =
  heap0_def heap7_def new_SideInputParam_def plain_def ext0_def registry_def state0_def
  double_def stub_def heap1_def state9_def boundHeap_def


lemma getProp_frame:
  "a < length h \<Longrightarrow> a < length h' \<Longrightarrow> (\<forall>b\<le>a. h' ! b = h ! b) \<Longrightarrow>
   getProp h' a n = getProp h a n"
proof (induction h a n rule: getProp.induct)
  case (1 h a name)
  have same: "h' ! a = h ! a" using "1.prems" by simp
  show ?case
  proof (cases "map_of (props (h ! a)) name")
    case (Some v)
    then show ?thesis
      using "1.prems" same by (simp add: getProp.simps [of h a] getProp.simps [of h' a])
  next
    case None
    show ?thesis
    proof (cases "proto (h ! a)")
      case NoneP: None
      then show ?thesis
        using "1.prems" same None by (simp add: getProp.simps [of h a] getProp.simps [of h' a])
    next
      case (Some p)
      show ?thesis
      proof (cases "p < a")
        case True
        have "getProp h' p name = getProp h p name"
          using "1.IH" [OF _ None Some True] "1.prems" True by simp
        then show ?thesis
          using "1.prems" same None Some True
          by (simp add: getProp.simps [of h a] getProp.simps [of h' a])
      next
        case False
        then show ?thesis
          using "1.prems" same None Some
          by (simp add: getProp.simps [of h a] getProp.simps [of h' a])
      qed
    qed
  qed
qed

lemma inProtoChain_frame:
  "a < length h \<Longrightarrow> a < length h' \<Longrightarrow> (\<forall>b\<le>a. proto (h' ! b) = proto (h ! b)) \<Longrightarrow>
   inProtoChain h' a P = inProtoChain h a P"
proof (induction h a P rule: inProtoChain.induct)
  case (1 h a P)
  have same: "proto (h' ! a) = proto (h ! a)" using "1.prems" by simp
  show ?case
  proof (cases "proto (h ! a)")
    case None
    then show ?thesis
      using "1.prems" same by (simp add: inProtoChain.simps [of h a] inProtoChain.simps [of h' a])
  next
    case (Some p)
    show ?thesis
    proof (cases "p \<noteq> P \<and> p < a")
      case True
      have "inProtoChain h' p P = inProtoChain h p P"
        using "1.IH" [OF _ Some] "1.prems" True by simp
      then show ?thesis
        using "1.prems" same Some True
        by (simp add: inProtoChain.simps [of h a] inProtoChain.simps [of h' a])
    next
      case False
      then show ?thesis
        using "1.prems" same Some
        by (auto simp add: inProtoChain.simps [of h a] inProtoChain.simps [of h' a])
    qed
  qed
qed

lemma copySideInputWithId_eq:
  "copySideInputWithId h sideInput ident =
     (length h, h @ [\<lparr>proto = Some sideInput, props = [(''sideInputId'', JStr ident)],
                      callable = False\<rparr>])"
  by (simp add: copySideInputWithId_def Object_create_def setProp_def deleteProp_def Let_def)

lemma delete_pcoll_no_effect:
  "deleteProp (setProp (snd (Object_create h p)) (length h) ''sideInputId'' v) (length h) ''pcoll''
   = setProp (snd (Object_create h p)) (length h) ''sideInputId'' v"
  by (simp add: Object_create_def setProp_def deleteProp_def)

lemma getProp_own:
  "a < length h \<Longrightarrow> map_of (props (h ! a)) n = Some v \<Longrightarrow> getProp h a n = v"
  by (simp add: getProp.simps [of h a])

lemma getProp_inherited:
  "a < length h \<Longrightarrow> map_of (props (h ! a)) n = None \<Longrightarrow> proto (h ! a) = Some p \<Longrightarrow> p < a \<Longrightarrow>
   getProp h a n = getProp h p n"
  by (simp add: getProp.simps [of h a])

lemma getProp_append:
  "a < length h \<Longrightarrow> getProp (h @ xs) a n = getProp h a n"
  by (rule getProp_frame) (simp_all add: nth_append)

lemma tagRepeatedly_eq:
  "tagRepeatedly h sideInput idents =
     ([length h..<length h + length idents],
      h @ map (\<lambda>i. \<lparr>proto = Some sideInput, props = [(''sideInputId'', JStr i)],
                     callable = False\<rparr>) idents)"
proof (induction idents arbitrary: h)
  case Nil
  show ?case by simp
next
  case (Cons i idents)
  have "[length h..<length h + length (i # idents)] =
        length h # [Suc (length h)..<Suc (length h) + length idents]"
    by (simp add: upt_rec)
  then show ?case
    by (simp add: copySideInputWithId_eq Cons.IH)
qed


lemma length_setProp [simp]: "length (setProp h a n v) = length h"
  by (simp add: setProp_def)

lemma nth_setProp_other: "b \<noteq> a \<Longrightarrow> setProp h a n v ! b = h ! b"
  by (simp add: setProp_def)

lemma proto_setProp: "proto (setProp h a n v ! b) = proto (h ! b)"
  by (cases "b = a"; cases "a < length h") (simp_all add: setProp_def list_update_beyond)


lemma inProtoChain_setProp: "inProtoChain (setProp h c n v) a P = inProtoChain h a P"
proof (cases "a < length h")
  case True
  then show ?thesis
    by (intro inProtoChain_frame) (simp_all add: proto_setProp)
next
  case False
  then show ?thesis
    by (simp add: inProtoChain.simps [of _ a])
qed

lemma instanceof_setProp: "instanceof (setProp h c n v) x P = instanceof h x P"
  by (cases x) (simp_all add: inProtoChain_setProp)

lemma assignAll_Nil [simp]: "assignAll cc [] h = h"
  by (simp add: assignAll_def)

lemma assignAll_Cons [simp]:
  "assignAll cc (e # es) h = assignAll cc es (setProp h cc (fst e) (snd e))"
  by (simp add: assignAll_def case_prod_beta)

lemma length_assignAll [simp]: "length (assignAll cc es h) = length h"
  by (induction es arbitrary: h) simp_all



lemma instanceof_assignAll: "instanceof (assignAll cc es h) x P = instanceof h x P"
  by (induction es arbitrary: h) (simp_all add: instanceof_setProp)





lemma getProp_below:
  "a < cc \<Longrightarrow> cc \<le> length h \<Longrightarrow> cc \<le> length h' \<Longrightarrow> (\<forall>b<cc. h' ! b = h ! b) \<Longrightarrow>
   getProp h' a n = getProp h a n"
  by (rule getProp_frame) auto






lemma expandSideInput_resolved:
  assumes "call_getId ext (getProp (heap s) v ''pcoll'') = Inr sideId"
    and "call_getId ext input = Inr mainId"
    and "pcollections comps mainId = Some mainPc"
    and "pcollections comps sideId = Some sidePc"
    and "windowingStrategies comps (windowingStrategyId sidePc) = Some sideStrategy"
    and "windowFn sideStrategy = Some wfn"
    and "getMember (heap (registered cc name v sideId s))
           (getProp (heap (registered cc name v sideId s)) v ''accessor'') ''accessPattern'' = Inr pat"
  shows "expandSideInput ext input cc comps name v si s =
    (Inr (si(''side.'' @ name \<mapsto>
        \<lparr>accessPattern = \<lparr>urn = pat, payload = []\<rparr>,
         viewFn = \<lparr>urn = ''unused'', payload = []\<rparr>,
         windowMappingFn =
           \<lparr>wm_urn =
              (if urn wfn = ''beam:window_fn:global_windows:v1''
               then GLOBAL_WINDOW_MAPPING_FN_URN ext
               else if windowingStrategyId mainPc = windowingStrategyId sidePc
               then IDENTITY_WINDOW_MAPPING_FN_URN ext
               else ASSIGN_MAX_TIMESTAMP_WINDOW_MAPPING_FN_URN ext),
            wm_value = []\<rparr>\<rparr>)),
     registered cc name v sideId s)"
  using assms
  by (simp add: expandSideInput_def registered_def taggedCopy_def copySideInputWithId_eq Let_def)

lemma registered_below:
  "cc < length (heap s) \<Longrightarrow> b < cc \<Longrightarrow> heap (registered cc name v sideId s) ! b = heap s ! b"
  by (simp add: registered_def nth_setProp_other nth_append)

lemma accessor_after_registration:
  assumes "v < cc" "cc < length (heap s)"
    and "getProp (heap s) v ''accessor'' = Ref acc" "acc < cc"
  shows "getMember (heap (registered cc name v sideId s))
           (getProp (heap (registered cc name v sideId s)) v ''accessor'') ''accessPattern''
         = Inr (getProp (heap s) acc ''accessPattern'')"
proof -
  let ?h' = "heap (registered cc name v sideId s)"
  have len: "cc \<le> length ?h'" using assms(2) by (simp add: registered_def)
  have same: "\<forall>b<cc. ?h' ! b = heap s ! b"
    using assms(2) by (simp add: registered_below)
  have "getProp ?h' v ''accessor'' = getProp (heap s) v ''accessor''"
    using assms(1,2) len same by (intro getProp_below [where cc = cc]) simp_all
  moreover have "getProp ?h' acc ''accessPattern'' = getProp (heap s) acc ''accessPattern''"
    using assms(2,4) len same by (intro getProp_below [where cc = cc]) simp_all
  ultimately show ?thesis by (simp add: assms(3))
qed
















lemma resolveContext_non_object:
  "typeof (heap s) ctx \<noteq> ''object'' \<Longrightarrow> resolveContext ext ctx input s = (Inr (Map.empty, ctx), s)"
  by (simp add: resolveContext_def)

section \<open>Facts about the concrete pipeline\<close>





section \<open>Selection of the window mapping function\<close>

text \<open>
  Claim C1. The urn of the window mapping function follows three rules in a fixed order.
  When the body of the loop meets a side-input parameter whose dataset and windowing
  strategy resolve in the registry (the parameter and its accessor being older than
  \<^verbatim>\<open>contextCopy\<close>, as they are in \<^verbatim>\<open>expandInternal\<close>), whatever the main and the side
  strategy are, it succeeds and records under the tag
  \<^verbatim>\<open>"side." + name\<close> a specification whose \<^verbatim>\<open>windowMappingFn\<close> urn is
  \<^verbatim>\<open>GLOBAL_WINDOW_MAPPING_FN_URN\<close> if the window function of the side strategy is the
  global-windows urn, whether or not the ids of the two strategies agree; otherwise
  \<^verbatim>\<open>IDENTITY_WINDOW_MAPPING_FN_URN\<close> if the ids of the main and of the side strategy are
  equal; otherwise \<^verbatim>\<open>ASSIGN_MAX_TIMESTAMP_WINDOW_MAPPING_FN_URN\<close>.
\<close>

theorem window_mapping_selection:
  assumes "instanceof (heap s) (Ref v) (SideInputParam_prototype ext)"
    and "v < contextCopy" and "contextCopy < length (heap s)"
    and "call_getId ext (getProp (heap s) v ''pcoll'') = Inr sideId"
    and "call_getId ext input = Inr mainId"
    and "pcollections comps mainId = Some mainPc"
    and "pcollections comps sideId = Some sidePc"
    and "windowingStrategies comps (windowingStrategyId sidePc) = Some sideStrategy"
    and "windowFn sideStrategy = Some wfn"
    and "getProp (heap s) v ''accessor'' = Ref acc" and "acc < contextCopy"
  shows "\<exists>sp s'.
           expandEntry ext input contextCopy comps name (Ref v) sideInps s =
             (Inr (sideInps(''side.'' @ name \<mapsto> sp)), s') \<and>
           wm_urn (windowMappingFn sp) =
             (if urn wfn = ''beam:window_fn:global_windows:v1''
              then GLOBAL_WINDOW_MAPPING_FN_URN ext
              else if windowingStrategyId mainPc = windowingStrategyId sidePc
              then IDENTITY_WINDOW_MAPPING_FN_URN ext
              else ASSIGN_MAX_TIMESTAMP_WINDOW_MAPPING_FN_URN ext)"
proof -
  have acc: "getMember (heap (registered contextCopy name v sideId s))
           (getProp (heap (registered contextCopy name v sideId s)) v ''accessor'') ''accessPattern''
         = Inr (getProp (heap s) acc ''accessPattern'')"
    using assms(2,3,10,11) by (rule accessor_after_registration)
  let ?rule = "if urn wfn = ''beam:window_fn:global_windows:v1''
               then GLOBAL_WINDOW_MAPPING_FN_URN ext
               else if windowingStrategyId mainPc = windowingStrategyId sidePc
               then IDENTITY_WINDOW_MAPPING_FN_URN ext
               else ASSIGN_MAX_TIMESTAMP_WINDOW_MAPPING_FN_URN ext"
  let ?sp = "\<lparr>accessPattern = \<lparr>urn = getProp (heap s) acc ''accessPattern'', payload = []\<rparr>,
              viewFn = \<lparr>urn = ''unused'', payload = []\<rparr>,
              windowMappingFn = \<lparr>wm_urn = ?rule, wm_value = []\<rparr>\<rparr>"
  have "expandEntry ext input contextCopy comps name (Ref v) sideInps s =
          (Inr (sideInps(''side.'' @ name \<mapsto> ?sp)), registered contextCopy name v sideId s)"
    using assms(1)
    by (simp add: expandSideInput_resolved [OF assms(4-9) acc] del: instanceof.simps)
  moreover have "wm_urn (windowMappingFn ?sp) = ?rule" by simp
  ultimately show ?thesis by blast
qed

text \<open>
  The main and the side dataset share the strategy \<^verbatim>\<open>W1\<close>, whose window function is
  global: the first rule wins over the second.
\<close>

theorem window_mapping_selection_witness:
  "instanceof (heap state9) (Ref 7) (SideInputParam_prototype ext0) \<and>
   (7::nat) < 9 \<and> 9 < length (heap state9) \<and>
   windowingStrategyId \<lparr>windowingStrategyId = ''W1''\<rparr> = windowingStrategyId \<lparr>windowingStrategyId = ''W1''\<rparr> \<and>
   (\<exists>sp s'. expandEntry ext0 (Ref 4) 9 (registry ''W1'' [''pc_main'', ''pc_side''])
               ''threshold'' (Ref 7) Map.empty state9 =
                 (Inr [''side.threshold'' \<mapsto> sp], s') \<and>
              wm_urn (windowMappingFn sp) = ''beam:window_mapping_fn:global:v1'')"
proof -
  let ?comps = "registry ''W1'' [''pc_main'', ''pc_side'']"
  let ?W1 = "\<lparr>windowingStrategyId = ''W1''\<rparr>"
  let ?global = "\<lparr>urn = ''beam:window_fn:global_windows:v1'', payload = []\<rparr> :: string FunctionSpec"
  have h1: "instanceof (heap state9) (Ref 7) (SideInputParam_prototype ext0)"
    by (simp add: inProtoChain.simps example_defs)
  have h2: "(7::nat) < 9" by simp
  have h3: "9 < length (heap state9)" by (simp add: example_defs)
  have h4: "call_getId ext0 (getProp (heap state9) 7 ''pcoll'') = Inr ''pc_side''"
    by (simp add: getProp.simps example_defs)
  have h5: "call_getId ext0 (Ref 4) = Inr ''pc_main''" by (simp add: example_defs)
  have h6: "pcollections ?comps ''pc_main'' = Some ?W1" by (simp add: example_defs)
  have h7: "pcollections ?comps ''pc_side'' = Some ?W1" by (simp add: example_defs)
  have h8: "windowingStrategies ?comps (windowingStrategyId ?W1) = Some \<lparr>windowFn = Some ?global\<rparr>"
    by (simp add: example_defs)
  have h9: "windowFn \<lparr>windowFn = Some ?global\<rparr> = Some ?global" by simp
  have h10: "getProp (heap state9) 7 ''accessor'' = Ref 6"
    by (simp add: getProp.simps example_defs)
  have h11: "(6::nat) < 9" by simp
  from window_mapping_selection [OF h1 h2 h3 h4 h5 h6 h7 h8 h9 h10 h11, of "''threshold''" Map.empty]
  have "\<exists>sp s'. expandEntry ext0 (Ref 4) 9 ?comps ''threshold'' (Ref 7) Map.empty state9 =
                 (Inr [''side.threshold'' \<mapsto> sp], s') \<and>
              wm_urn (windowMappingFn sp) = ''beam:window_mapping_fn:global:v1''"
    by (simp add: ext0_def)
  with h1 h3 show ?thesis by simp
qed

section \<open>Resolution of the context\<close>





text \<open>
  Claim C7. A context that is no keyed mapping is to be returned unchanged, with an empty
  side-input mapping. For every context whose \<^verbatim>\<open>typeof\<close> is not \<^verbatim>\<open>"object"\<close> this is what
  the code does (lemma \<open>resolveContext_non_object\<close>). The value \<^verbatim>\<open>null\<close> is no keyed mapping
  either, but \<^verbatim>\<open>typeof null\<close> is \<^verbatim>\<open>"object"\<close>: the branch for mappings is taken,
  \<^verbatim>\<open>Object.create(null)\<close> allocates an object, and \<^verbatim>\<open>Object.entries(null)\<close> throws a
  \<^verbatim>\<open>TypeError\<close>, so that the expansion fails.
\<close>

theorem null_context_throws:
  "resolveContext ext Null input s =
     (Inl TypeError, s\<lparr>heap := heap s @ [\<lparr>proto = None, props = [], callable = False\<rparr>]\<rparr>) \<and>
   expandInternal ext fn Null input s =
     (Inl TypeError, s\<lparr>heap := heap s @ [\<lparr>proto = None, props = [], callable = False\<rparr>]\<rparr>)"
  by (simp add: expandInternal_def resolveContext_def Object_create_def)

section \<open>Assembling the transform\<close>

text \<open>
  Claim C3. When the resolution of the context yields the side-input mapping
  \<open>sideInps\<close>, the expansion sets the spec of the transform descriptor to the urn
  \<^verbatim>\<open>"beam:transform:pardo:v1"\<close> and the binary encoding of the \<^verbatim>\<open>ParDoPayload\<close> whose \<^verbatim>\<open>doFn\<close>
  has the urn \<^verbatim>\<open>LOCAL_DOFN_EXPORT_NAME\<close> and as payload the bytes \<^verbatim>\<open>TextEncoder\<close> gives for
  \<^verbatim>\<open>doFn.exportName\<close>, and whose \<^verbatim>\<open>sideInputs\<close> is \<open>sideInps\<close>; inputs and outputs of the
  descriptor stay as the resolution left them; and the expansion returns the handle that
  the allocator of the pipeline yields for a new \<^verbatim>\<open>GeneralObjectCoder\<close>, leaving the
  pipeline and the store as the allocator leaves them.
\<close>

theorem spec_assembly:
  assumes "resolveContext ext ctx input s = (Inr (sideInps, contextCopy), s')"
  shows "fst (expandInternal ext fn ctx input s) =
           Inr (fst (createPCollectionInternal ext GeneralObjectCoder (pipeline s') (heap s'))) \<and>
         spec (transformProto (snd (expandInternal ext fn ctx input s))) =
           Some \<lparr>urn = ''beam:transform:pardo:v1'',
                 payload = ParDoPayload_toBinary ext
                   \<lparr>doFn = \<lparr>urn = LOCAL_DOFN_EXPORT_NAME ext,
                            payload = TextEncoder_encode ext (exportName fn)\<rparr>,
                    sideInputs = sideInps\<rparr>\<rparr> \<and>
         inputs (transformProto (snd (expandInternal ext fn ctx input s))) =
           inputs (transformProto s') \<and>
         outputs (transformProto (snd (expandInternal ext fn ctx input s))) =
           outputs (transformProto s') \<and>
         (pipeline (snd (expandInternal ext fn ctx input s)),
          heap (snd (expandInternal ext fn ctx input s))) =
           snd (createPCollectionInternal ext GeneralObjectCoder (pipeline s') (heap s'))"
  using assms
  by (simp add: expandInternal_def localParDo_urn_def Let_def split: prod.splits)

theorem spec_assembly_witness:
  "resolveContext ext0 Undefined (Ref 4) (state0 [''pc_main'']) =
     (Inr (Map.empty, Undefined), state0 [''pc_main'']) \<and>
   fst (expandInternal ext0 double Undefined (Ref 4) (state0 [''pc_main''])) = Inr (Ref 9) \<and>
   spec (transformProto (snd (expandInternal ext0 double Undefined (Ref 4) (state0 [''pc_main''])))) =
     Some \<lparr>urn = ''beam:transform:pardo:v1'', payload = map of_char ''double''\<rparr>"
proof -
  let ?s = "state0 [''pc_main'']"
  have r: "resolveContext ext0 Undefined (Ref 4) ?s = (Inr (Map.empty, Undefined), ?s)"
    by (simp add: resolveContext_def)
  have len: "length (heap ?s) = 9" by (simp add: example_defs)
  from spec_assembly [OF r, of double] len r show ?thesis
    by (simp add: ext0_def double_def)
qed



section \<open>Unresolved side inputs\<close>




section \<open>Lookup and update\<close>

text \<open>
  Claim C4. On a parameter whose \<^verbatim>\<open>provider\<close> is \<^verbatim>\<open>undefined\<close>, \<^verbatim>\<open>lookup\<close> and \<^verbatim>\<open>update\<close>
  fail at once with the error \<^verbatim>\<open>"Cannot be called outside of a DoFn's process method."\<close>
  and leave the provider's state alone. On a parameter bound to a provider, \<^verbatim>\<open>lookup\<close> is
  one call of the provider's \<^verbatim>\<open>lookup\<close> on this very parameter and returns what that call
  returns, and \<^verbatim>\<open>update\<close> is one call of the provider's \<^verbatim>\<open>update\<close> on this parameter and the
  value it was given.
\<close>

theorem lookup_update_binding:
  "(getProp h this ''provider'' = Undefined \<longrightarrow>
      ParDoLookupParam_lookup impl h this w =
        (Inl (Error ''Cannot be called outside of a DoFn's process method.''), w) \<and>
      ParDoUpdateParam_update impl h this v w =
        (Inl (Error ''Cannot be called outside of a DoFn's process method.''), w)) \<and>
   (getProp h this ''provider'' = Ref p \<and> impl p = Some prov \<longrightarrow>
      ParDoLookupParam_lookup impl h this w = provider_lookup prov this w \<and>
      ParDoUpdateParam_update impl h this v w = provider_update prov this v w)"
  by (simp add: ParDoLookupParam_lookup_def ParDoUpdateParam_update_def)

theorem lookup_update_binding_witness:
  "getProp heap0 7 ''provider'' = Undefined \<and>
   ParDoLookupParam_lookup [9 \<mapsto> stub (\<lambda>a. JNum (int a))] heap0 7 [] =
     (Inl (Error ''Cannot be called outside of a DoFn's process method.''), []) \<and>
   ParDoUpdateParam_update [9 \<mapsto> stub (\<lambda>a. JNum (int a))] heap0 7 (JStr ''v'') [] =
     (Inl (Error ''Cannot be called outside of a DoFn's process method.''), []) \<and>
   getProp boundHeap 7 ''provider'' = Ref 9 \<and>
   ParDoLookupParam_lookup [9 \<mapsto> stub (\<lambda>a. JNum (int a))] boundHeap 7 [] = (Inr (JNum 7), []) \<and>
   ParDoUpdateParam_update [9 \<mapsto> stub (\<lambda>a. JNum (int a))] boundHeap 7 (JStr ''v'') [] =
     (Inr (), [(7, JStr ''v'')])"
proof -
  let ?impl = "[9 \<mapsto> stub (\<lambda>a. JNum (int a))]"
  have u: "getProp heap0 7 ''provider'' = Undefined"
    by (simp add: getProp.simps example_defs)
  have b: "getProp boundHeap 7 ''provider'' = Ref 9"
    by (simp add: getProp.simps setProp_def example_defs)
  have i: "?impl 9 = Some (stub (\<lambda>a. JNum (int a)))" by simp
  from lookup_update_binding [of heap0 7 ?impl "[]" "JStr ''v''"] u
    lookup_update_binding [of boundHeap 7 ?impl "[]" "JStr ''v''" 9 "stub (\<lambda>a. JNum (int a))"] b i
  show ?thesis by (simp add: stub_def)
qed

section \<open>Tagging a side-input parameter\<close>

text \<open>
  Claim C5. Tagging copies and never writes to the parameter it is given. For a declared
  parameter without an own \<^verbatim>\<open>sideInputId\<close>, tagging it any number of times yields as many
  copies, all distinct from the parameter and from each other, each carrying its own tag
  whatever was tagged later; the parameter itself is unchanged, has no own \<^verbatim>\<open>sideInputId\<close>
  afterwards and reads that field as before.
\<close>

theorem tagging_is_copy_only:
  assumes "sideInput < length h"
    and "\<not> hasOwnProperty h sideInput ''sideInputId''"
    and "tagRepeatedly h sideInput idents = (copies, h')"
  shows "length copies = length idents \<and> sideInput \<notin> set copies \<and> distinct copies \<and>
         h' ! sideInput = h ! sideInput \<and>
         \<not> hasOwnProperty h' sideInput ''sideInputId'' \<and>
         getProp h' sideInput ''sideInputId'' = getProp h sideInput ''sideInputId'' \<and>
         (\<forall>i < length idents.
            proto (h' ! (copies ! i)) = Some sideInput \<and>
            getProp h' (copies ! i) ''sideInputId'' = JStr (idents ! i))"
proof -
  let ?new = "map (\<lambda>i. \<lparr>proto = Some sideInput, props = [(''sideInputId'', JStr i)],
                         callable = False\<rparr>) idents"
  have cs: "copies = [length h..<length h + length idents]" and h': "h' = h @ ?new"
    using assms(3) by (simp_all add: tagRepeatedly_eq)
  have orig: "h' ! sideInput = h ! sideInput"
    using assms(1) by (simp add: h' nth_append)
  have unset: "\<not> hasOwnProperty h' sideInput ''sideInputId''"
    using assms(1,2) orig by (simp add: hasOwnProperty_def h')
  have rd: "getProp h' sideInput ''sideInputId'' = getProp h sideInput ''sideInputId''"
    unfolding h' using assms(1) by (rule getProp_append)
  have each: "proto (h' ! (copies ! i)) = Some sideInput \<and>
              getProp h' (copies ! i) ''sideInputId'' = JStr (idents ! i)"
    if "i < length idents" for i
  proof -
    have obj: "h' ! (copies ! i) = \<lparr>proto = Some sideInput,
                 props = [(''sideInputId'', JStr (idents ! i))], callable = False\<rparr>"
      using that by (simp add: cs h' nth_append)
    have "copies ! i < length h'" using that by (simp add: cs h')
    then have "getProp h' (copies ! i) ''sideInputId'' = JStr (idents ! i)"
      by (rule getProp_own) (simp add: obj)
    then show ?thesis using obj by simp
  qed
  show ?thesis
    using assms(1) orig unset rd each by (simp add: cs)
qed

theorem tagging_is_copy_only_witness:
  "7 < length heap0 \<and> \<not> hasOwnProperty heap0 7 ''sideInputId'' \<and>
   fst (tagRepeatedly heap0 7 [''side.a'', ''side.b'']) = [9, 10] \<and>
   getProp (snd (tagRepeatedly heap0 7 [''side.a'', ''side.b''])) 7 ''sideInputId'' = Undefined \<and>
   getProp (snd (tagRepeatedly heap0 7 [''side.a'', ''side.b''])) 9 ''sideInputId'' = JStr ''side.a'' \<and>
   getProp (snd (tagRepeatedly heap0 7 [''side.a'', ''side.b''])) 10 ''sideInputId'' = JStr ''side.b''"
proof -
  let ?r = "tagRepeatedly heap0 7 [''side.a'', ''side.b'']"
  have a: "7 < length heap0"
    by (simp add: example_defs)
  have b: "\<not> hasOwnProperty heap0 7 ''sideInputId''"
    by (simp add: hasOwnProperty_def example_defs)
  have c: "?r = (fst ?r, snd ?r)" by simp
  have cs: "fst ?r = [9, 10]"
    by (simp add: tagRepeatedly_eq example_defs upt_rec)
  have before: "getProp heap0 7 ''sideInputId'' = Undefined"
    by (simp add: getProp.simps example_defs)
  note t = tagging_is_copy_only [OF a b c]
  from t before have orig: "getProp (snd ?r) 7 ''sideInputId'' = Undefined"
    by simp
  from t have each: "\<forall>i < length [''side.a'', ''side.b''].
      getProp (snd ?r) (fst ?r ! i) ''sideInputId'' = JStr ([''side.a'', ''side.b''] ! i)"
    by simp
  from each [rule_format, of 0] each [rule_format, of 1] cs
  have "getProp (snd ?r) 9 ''sideInputId'' = JStr ''side.a''"
    and "getProp (snd ?r) 10 ''sideInputId'' = JStr ''side.b''"
    by simp_all
  with orig have "getProp (snd ?r) 7 ''sideInputId'' = Undefined"
    and "getProp (snd ?r) 9 ''sideInputId'' = JStr ''side.a''"
    and "getProp (snd ?r) 10 ''sideInputId'' = JStr ''side.b''"
    by simp_all
  with a b cs show ?thesis by simp
qed

text \<open>
  Claim C10. The tagged copy is a new object whose prototype is the parameter. Every
  property but \<^verbatim>\<open>sideInputId\<close>, so \<^verbatim>\<open>pcoll\<close> and \<^verbatim>\<open>accessor\<close>, is not an own property of the
  copy and reads on the copy the very value it reads on the parameter, which is the value
  it read before. \<^verbatim>\<open>sideInputId\<close> is an own property of the copy, and the parameter owns
  one after the call only if it did before. The statement \<^verbatim>\<open>delete copy.pcoll\<close> leaves the
  store as it found it.
\<close>

theorem tagged_copy_shares_backing:
  assumes "sideInput < length h"
    and "copySideInputWithId h sideInput ident = (copy, h')"
  shows "copy \<noteq> sideInput \<and> proto (h' ! copy) = Some sideInput \<and>
         h' ! sideInput = h ! sideInput \<and>
         (\<forall>name. name \<noteq> ''sideInputId'' \<longrightarrow>
            \<not> hasOwnProperty h' copy name \<and>
            getProp h' copy name = getProp h' sideInput name \<and>
            getProp h' sideInput name = getProp h sideInput name) \<and>
         hasOwnProperty h' copy ''sideInputId'' \<and>
         getProp h' copy ''sideInputId'' = JStr ident \<and>
         (hasOwnProperty h' sideInput ''sideInputId'' \<longleftrightarrow>
            hasOwnProperty h sideInput ''sideInputId'') \<and>
         deleteProp (setProp (snd (Object_create h (Some sideInput))) copy
                       ''sideInputId'' (JStr ident)) copy ''pcoll''
           = setProp (snd (Object_create h (Some sideInput))) copy ''sideInputId'' (JStr ident)"
proof -
  let ?obj = "\<lparr>proto = Some sideInput, props = [(''sideInputId'', JStr ident)],
               callable = False\<rparr>"
  have c: "copy = length h" and h': "h' = h @ [?obj]"
    using assms(2) by (simp_all add: copySideInputWithId_eq)
  have obj: "h' ! copy = ?obj" by (simp add: c h')
  have lt: "copy < length h'" by (simp add: c h')
  have orig: "h' ! sideInput = h ! sideInput"
    using assms(1) by (simp add: h' nth_append)
  have inh: "\<not> hasOwnProperty h' copy name \<and>
             getProp h' copy name = getProp h' sideInput name \<and>
             getProp h' sideInput name = getProp h sideInput name"
    if "name \<noteq> ''sideInputId''" for name
  proof -
    have none: "map_of (props (h' ! copy)) name = None"
      using that by (simp add: obj)
    have pr: "proto (h' ! copy) = Some sideInput" by (simp add: obj)
    have older: "sideInput < copy" using assms(1) by (simp add: c)
    have "getProp h' copy name = getProp h' sideInput name"
      by (rule getProp_inherited [OF lt none pr older])
    moreover have "getProp h' sideInput name = getProp h sideInput name"
      unfolding h' using assms(1) by (rule getProp_append)
    ultimately show ?thesis using none by (simp add: hasOwnProperty_def)
  qed
  have own: "getProp h' copy ''sideInputId'' = JStr ident"
    using lt by (rule getProp_own) (simp add: obj)
  have del: "deleteProp (setProp (snd (Object_create h (Some sideInput))) copy
                       ''sideInputId'' (JStr ident)) copy ''pcoll''
           = setProp (snd (Object_create h (Some sideInput))) copy ''sideInputId'' (JStr ident)"
    unfolding c by (rule delete_pcoll_no_effect)
  show ?thesis
    using assms(1) obj orig inh own del lt
    by (simp add: hasOwnProperty_def c)
qed

theorem tagged_copy_shares_backing_witness:
  "7 < length heap0 \<and>
   fst (copySideInputWithId heap0 7 ''side.threshold'') = 9 \<and>
   getProp (snd (copySideInputWithId heap0 7 ''side.threshold'')) 9 ''pcoll'' = Ref 5 \<and>
   getProp (snd (copySideInputWithId heap0 7 ''side.threshold'')) 9 ''accessor'' = Ref 6 \<and>
   \<not> hasOwnProperty (snd (copySideInputWithId heap0 7 ''side.threshold'')) 9 ''pcoll'' \<and>
   hasOwnProperty (snd (copySideInputWithId heap0 7 ''side.threshold'')) 9 ''sideInputId'' \<and>
   \<not> hasOwnProperty (snd (copySideInputWithId heap0 7 ''side.threshold'')) 7 ''sideInputId''"
proof -
  let ?r = "copySideInputWithId heap0 7 ''side.threshold''"
  have a: "7 < length heap0"
    by (simp add: example_defs)
  have b: "?r = (fst ?r, snd ?r)" by simp
  have c: "fst ?r = 9"
    by (simp add: copySideInputWithId_eq example_defs)
  have before: "getProp heap0 7 ''pcoll'' = Ref 5" "getProp heap0 7 ''accessor'' = Ref 6"
    "\<not> hasOwnProperty heap0 7 ''sideInputId''"
    by (simp_all add: getProp.simps hasOwnProperty_def example_defs)
  from tagged_copy_shares_backing [OF a b] c before a show ?thesis by simp
qed

end
